theory Spec2Isabelle
  imports Complex_Main
begin

section \<open>Strings\<close>

text \<open>
  A Python \<open>str\<close> is a sequence of Unicode code points: a list of natural numbers. Its
  length is the number of code points. A literal of the source is written \<open>u ''...''\<close>;
  a character that Isabelle's string literals do not hold is written as its code point.
\<close>

type_synonym str = "nat list"

definition u :: "string \<Rightarrow> str" where
  "u s = map of_char s"

text \<open>
  The Unicode tables of the Python runtime are not part of the repository. Up to code
  point 127 the class of a character and its lower case are written out below. Beyond,
  they are a parameter of the model: the class of each code point (a word character for
  the pattern \<open>\w\<close>, which is \<open>str.isalnum\<close> or the underscore; white space for
  \<open>\s\<close>, \<open>str.isspace\<close> and \<open>str.strip\<close>; or neither), and the lower case of a
  code point that is not white space, which is a sequence of code points and may depend
  on the code points before and after it (as for the capital sigma). White space has no
  case.
\<close>

datatype cp_class = WordCP | SpaceCP | OtherCP

record unicode =
  cp_class :: "nat \<Rightarrow> cp_class"
  cp_lower :: "str \<Rightarrow> nat \<Rightarrow> str \<Rightarrow> str"

text \<open>The ASCII white space: tab, line feed, vertical tab, form feed, carriage return,
  the four separators \<open>0x1C\<close> to \<open>0x1F\<close>, and the space.\<close>

definition ascii_space :: "nat \<Rightarrow> bool" where
  "ascii_space c = ((9 \<le> c \<and> c \<le> 13) \<or> (28 \<le> c \<and> c \<le> 32))"

text \<open>The ASCII word characters: digits, letters and the underscore.\<close>

definition ascii_word :: "nat \<Rightarrow> bool" where
  "ascii_word c = ((48 \<le> c \<and> c \<le> 57) \<or> (65 \<le> c \<and> c \<le> 90) \<or> c = 95 \<or> (97 \<le> c \<and> c \<le> 122))"

definition ascii_lower :: "nat \<Rightarrow> nat" where
  "ascii_lower c = (if 65 \<le> c \<and> c \<le> 90 then c + 32 else c)"

definition is_space :: "unicode \<Rightarrow> nat \<Rightarrow> bool" where
  "is_space py c = (if c < 128 then ascii_space c else cp_class py c = SpaceCP)"

definition is_word :: "unicode \<Rightarrow> nat \<Rightarrow> bool" where
  "is_word py c = (if c < 128 then ascii_word c else cp_class py c = WordCP)"

text \<open>The lower case of one code point of a text, between the code points before it and
  those after it.\<close>

definition lower_cp :: "unicode \<Rightarrow> str \<Rightarrow> nat \<Rightarrow> str \<Rightarrow> str" where
  "lower_cp py before c after =
     (if c < 128 then [ascii_lower c]
      else if cp_class py c = SpaceCP then [c]
      else cp_lower py before c after)"

fun lower_from :: "unicode \<Rightarrow> str \<Rightarrow> str \<Rightarrow> str" where
  "lower_from py before [] = []"
| "lower_from py before (c # after) = lower_cp py before c after @ lower_from py (before @ [c]) after"

text \<open>\<open>str.lower()\<close>\<close>

definition lower :: "unicode \<Rightarrow> str \<Rightarrow> str" where
  "lower py s = lower_from py [] s"

text \<open>\<open>str.strip()\<close>\<close>

definition strip :: "unicode \<Rightarrow> str \<Rightarrow> str" where
  "strip py s = rev (dropWhile (is_space py) (rev (dropWhile (is_space py) s)))"

text \<open>\<open>s.startswith(w)\<close>\<close>

fun starts_with :: "str \<Rightarrow> str \<Rightarrow> bool" where
  "starts_with [] s = True"
| "starts_with (a # w) [] = False"
| "starts_with (a # w) (c # s) = (a = c \<and> starts_with w s)"

text \<open>\<open>sub in s\<close> on two strings\<close>

fun is_substring :: "str \<Rightarrow> str \<Rightarrow> bool" where
  "is_substring sub [] = (sub = [])"
| "is_substring sub (c # s) = (starts_with sub (c # s) \<or> is_substring sub s)"

text \<open>\<open>s.split('\n')[0]\<close>: the text before the first line feed.\<close>

definition first_line :: "str \<Rightarrow> str" where
  "first_line s = takeWhile (\<lambda>c. c \<noteq> 10) s"

text \<open>\<open>sep.join(xs)\<close>\<close>

fun join :: "str \<Rightarrow> str list \<Rightarrow> str" where
  "join sep [] = []"
| "join sep [x] = x"
| "join sep (x # y # xs) = x @ sep @ join sep (y # xs)"

text \<open>\<open>str(n)\<close> for an integer, as the f-strings format it.\<close>

definition digit_char :: "nat \<Rightarrow> nat" where
  "digit_char n = 48 + n mod 10"

function str_nat :: "nat \<Rightarrow> str" where
  "str_nat n = (if n < 10 then [digit_char n] else str_nat (n div 10) @ [digit_char (n mod 10)])"
  by pat_completeness auto
termination
  by (relation "measure id") auto

declare str_nat.simps [simp del]

definition str_int :: "int \<Rightarrow> str" where
  "str_int i = (if i < 0 then u ''-'' @ str_nat (nat (- i)) else str_nat (nat i))"


section \<open>Regular expressions\<close>

text \<open>
  The fragment of Python's \<open>re\<close> syntax that the patterns of the services use:
  literals, \<open>.\<close>, \<open>\s\<close>, character classes, greedy \<open>*\<close> and \<open>+\<close> on one
  character, \<open>\b\<close>, alternation, concatenation and numbered groups.
\<close>

datatype cset = Dot | Space | InSet str | NotInSet str

fun in_cset :: "unicode \<Rightarrow> cset \<Rightarrow> nat \<Rightarrow> bool" where
  "in_cset py Dot c = (c \<noteq> 10)"
| "in_cset py Space c = is_space py c"
| "in_cset py (InSet cs) c = (c \<in> set cs)"
| "in_cset py (NotInSet cs) c = (c \<notin> set cs)"

datatype regex =
    Lit str
  | One cset
  | Star cset
  | Plus cset
  | WordB
  | Alt regex regex
  | Seq regex regex
  | Grp nat regex

text \<open>
  A matcher state: the character before the current position (none at the start of the
  text), the text from the current position on, and the groups captured so far (the
  latest first).
\<close>

type_synonym mstate = "nat option \<times> str \<times> (nat \<times> str) list"

text \<open>The positions a greedy repetition of one character class can stop at, the longest
  first, which is the order in which a backtracking matcher tries them.\<close>

fun star_states :: "unicode \<Rightarrow> cset \<Rightarrow> nat option \<Rightarrow> str \<Rightarrow> (nat option \<times> str) list" where
  "star_states py cs p [] = [(p, [])]"
| "star_states py cs p (c # s) =
     (if in_cset py cs c then star_states py cs (Some c) s @ [(p, c # s)] else [(p, c # s)])"

definition word_before :: "unicode \<Rightarrow> nat option \<Rightarrow> bool" where
  "word_before py p = (case p of None \<Rightarrow> False | Some c \<Rightarrow> is_word py c)"

definition word_after :: "unicode \<Rightarrow> str \<Rightarrow> bool" where
  "word_after py s = (case s of [] \<Rightarrow> False | c # _ \<Rightarrow> is_word py c)"

text \<open>All the ways a pattern matches at the current position, in the order of
  preference of a backtracking matcher.\<close>

fun rmatch :: "unicode \<Rightarrow> regex \<Rightarrow> mstate \<Rightarrow> mstate list" where
  "rmatch py (Lit w) (p, s, g) =
     (if starts_with w s then [(if w = [] then p else Some (last w), drop (length w) s, g)]
      else [])"
| "rmatch py (One cs) (p, s, g) =
     (case s of [] \<Rightarrow> [] | c # t \<Rightarrow> if in_cset py cs c then [(Some c, t, g)] else [])"
| "rmatch py (Star cs) (p, s, g) = map (\<lambda>(p', s'). (p', s', g)) (star_states py cs p s)"
| "rmatch py (Plus cs) (p, s, g) =
     (case s of [] \<Rightarrow> []
      | c # t \<Rightarrow> if in_cset py cs c then map (\<lambda>(p', s'). (p', s', g)) (star_states py cs (Some c) t)
                 else [])"
| "rmatch py WordB (p, s, g) = (if word_before py p \<noteq> word_after py s then [(p, s, g)] else [])"
| "rmatch py (Alt a b) st = rmatch py a st @ rmatch py b st"
| "rmatch py (Seq a b) st = concat (map (rmatch py b) (rmatch py a st))"
| "rmatch py (Grp n r) (p, s, g) =
     map (\<lambda>(p', s', g'). (p', s', (n, take (length s - length s') s) # g')) (rmatch py r (p, s, g))"

text \<open>\<open>re.search\<close>: the first match at the leftmost position that has one.\<close>

fun search_from :: "unicode \<Rightarrow> regex \<Rightarrow> nat option \<Rightarrow> str \<Rightarrow> mstate option" where
  "search_from py r p [] = (case rmatch py r (p, [], []) of st # _ \<Rightarrow> Some st | [] \<Rightarrow> None)"
| "search_from py r p (c # t) =
     (case rmatch py r (p, c # t, []) of st # _ \<Rightarrow> Some st | [] \<Rightarrow> search_from py r (Some c) t)"

definition re_search :: "unicode \<Rightarrow> regex \<Rightarrow> str \<Rightarrow> mstate option" where
  "re_search py r s = search_from py r None s"

text \<open>The truth value of a match object: \<open>if re.search(pattern, s)\<close>.\<close>

definition re_found :: "unicode \<Rightarrow> regex \<Rightarrow> str \<Rightarrow> bool" where
  "re_found py r s = (re_search py r s \<noteq> None)"

text \<open>\<open>match.group(n)\<close> of a group that took part in the match.\<close>

definition group :: "mstate \<Rightarrow> nat \<Rightarrow> str option" where
  "group st n = map_of (snd (snd st)) n"

fun seqs :: "regex list \<Rightarrow> regex" where
  "seqs [] = Lit []"
| "seqs [r] = r"
| "seqs (r # rs) = Seq r (seqs rs)"

fun alts :: "regex list \<Rightarrow> regex" where
  "alts [] = Lit []"
| "alts [r] = r"
| "alts (r # rs) = Alt r (alts rs)"


section \<open>Data model\<close>

text \<open>
  Modelled from the spec: the declarations of \<open>models/git_models.py\<close>
  (\<open>RiskLevel\<close>, \<open>GitCommand\<close>, \<open>FileStatus\<close>, \<open>Remote\<close>, \<open>Commit\<close>, \<open>GitDiff\<close>,
  \<open>GitRepositoryState\<close>, \<open>AssistantResponse\<close>) are not among the sources. The records
  below have the fields that section 3 of the specification lists, under the names that
  the constructor calls of \<open>nlp_service.py\<close> and \<open>git_analyzer.py\<close> give them. An
  \<open>explanation\<close> that a constructor call leaves out is \<open>None\<close>.
\<close>

datatype RiskLevel = SAFE | MODERATE | DESTRUCTIVE

record GitCommand =
  command :: str
  args :: "str list"
  description :: str
  risk_level :: RiskLevel
  requires_confirmation :: bool
  explanation :: "str option"

record FileStatus =
  path :: str
  status :: str

record Remote =
  name :: str
  url :: str
  fetch_url :: str

record Commit =
  hash :: str
  message :: str
  author :: str
  date :: str
  files_changed :: "str list"

record GitDiff =
  files :: "FileStatus list"
  total_insertions :: int
  total_deletions :: int
  summary :: str
  is_merge :: bool

text \<open>\<open>ahead_behind\<close> is an optional dictionary from strings to integers, and
  \<open>conflicted_files\<close> an optional list.\<close>

record GitRepositoryState =
  current_branch :: str
  staged_files :: "FileStatus list"
  unstaged_files :: "FileStatus list"
  untracked_files :: "str list"
  remotes :: "Remote list"
  recent_commits :: "Commit list"
  conflicted_files :: "str list option"
  is_clean :: bool
  ahead_behind :: "(str \<times> int) list option"

record AssistantResponse =
  response_interpretation :: str
  suggested_commands :: "GitCommand list"
  response_explanation :: str
  warnings :: "str list option"
  alternatives :: "GitCommand list option"
  response_confidence :: real

text \<open>The dictionary that \<open>_analyze_intent\<close> returns. The two confidences are the reals
  that the literals \<open>0.8\<close> and \<open>0.5\<close> denote.\<close>

record Intent =
  action :: str
  target :: str
  confidence :: real
  raw_query :: str


section \<open>Intent classification\<close>

text \<open>\<open>NLPService.command_patterns\<close>: a dictionary literal, iterated in the order in which
  it is written.\<close>

definition command_patterns :: "(str \<times> regex list) list" where
  "command_patterns =
   [(u ''commit'',
      [seqs [WordB, Grp 1 (alts [Lit (u ''commit''), Lit (u ''save''), Lit (u ''record'')]), WordB, Star Dot,
             WordB, Grp 2 (alts [Lit (u ''changes''), Lit (u ''files''), Lit (u ''work'')]), WordB],
       seqs [WordB, Lit (u ''commit''), WordB],
       seqs [WordB, Lit (u ''save''), Star Dot, Lit (u ''changes''), WordB]]),
    (u ''push'',
      [seqs [WordB, Grp 1 (alts [Lit (u ''push''), Lit (u ''upload''), Lit (u ''send'')]), WordB, Star Dot,
             WordB, Grp 2 (alts [Lit (u ''remote''), Lit (u ''origin''), Lit (u ''upstream'')]), WordB],
       seqs [WordB, Lit (u ''push''), WordB],
       seqs [WordB, Lit (u ''upload''), Star Dot, Lit (u ''changes''), WordB]]),
    (u ''pull'',
      [seqs [WordB, Grp 1 (alts [Lit (u ''pull''), Lit (u ''fetch''), Lit (u ''download''), Lit (u ''get''),
                                 Lit (u ''sync'')]), WordB, Star Dot,
             WordB, Grp 2 (alts [Lit (u ''changes''), Lit (u ''updates''), Lit (u ''remote'')]), WordB],
       seqs [WordB, Lit (u ''pull''), WordB],
       seqs [WordB, Lit (u ''get''), Star Dot, Lit (u ''changes''), WordB]]),
    (u ''branch'',
      [seqs [WordB, Grp 1 (alts [Lit (u ''create''), Lit (u ''make''), Lit (u ''new'')]), WordB, Star Dot,
             WordB, Lit (u ''branch''), WordB],
       seqs [WordB, Grp 1 (alts [Lit (u ''switch''), Lit (u ''change''), Lit (u ''checkout'')]), WordB, Star Dot,
             WordB, Lit (u ''branch''), WordB],
       seqs [WordB, Lit (u ''branch''), WordB]]),
    (u ''merge'',
      [seqs [WordB, Lit (u ''merge''), WordB, Star Dot, WordB, Lit (u ''branch''), WordB],
       seqs [WordB, Lit (u ''merge''), WordB],
       seqs [WordB, Lit (u ''combine''), Star Dot, Lit (u ''branches''), WordB]]),
    (u ''status'',
      [seqs [WordB, Grp 1 (alts [Lit (u ''status''), Lit (u ''state''),
                                 seqs [Lit (u ''what''), Star Dot, Lit (u ''changed'')]]), WordB],
       seqs [WordB, Lit (u ''check''), Star Dot, Lit (u ''status''), WordB],
       seqs [WordB, Lit (u ''what''), Star Dot, Lit (u ''files''), WordB]]),
    (u ''undo'',
      [seqs [WordB, Grp 1 (alts [Lit (u ''undo''), Lit (u ''revert''), Lit (u ''rollback''), Lit (u ''reset'')]),
             WordB],
       seqs [WordB, Lit (u ''undo''), Star Dot, Lit (u ''commit''), WordB],
       seqs [WordB, Lit (u ''go''), Star Dot, Lit (u ''back''), WordB]]),
    (u ''stash'',
      [seqs [WordB, Grp 1 (alts [Lit (u ''stash''), Lit (u ''save''), Lit (u ''store'')]), WordB, Star Dot,
             WordB, Grp 2 (alts [Lit (u ''changes''), Lit (u ''work'')]), WordB],
       seqs [WordB, Lit (u ''stash''), WordB],
       seqs [WordB, Lit (u ''temporary''), Star Dot, Lit (u ''save''), WordB]])]"

text \<open>The character class \<open>[a-zA-Z0-9_/-]\<close>\<close>

definition name_chars :: str where
  "name_chars = u ''abcdefghijklmnopqrstuvwxyzABCDEFGHIJKLMNOPQRSTUVWXYZ0123456789_/-''"

text \<open>The three patterns of \<open>_extract_target\<close>:
  \<^verbatim>\<open>branch\s+([a-zA-Z0-9_/-]+)\<close>, \<^verbatim>\<open>message\s+["\']([^"\']+)["\']\<close> and
  \<^verbatim>\<open>merge\s+([a-zA-Z0-9_/-]+)\<close>.\<close>

definition branch_target_pattern :: regex where
  "branch_target_pattern = seqs [Lit (u ''branch''), Plus Space, Grp 1 (Plus (InSet name_chars))]"

definition quote_chars :: str where
  "quote_chars = [34, 39]"

definition message_target_pattern :: regex where
  "message_target_pattern =
     seqs [Lit (u ''message''), Plus Space, One (InSet quote_chars),
           Grp 1 (Plus (NotInSet quote_chars)), One (InSet quote_chars)]"

definition merge_target_pattern :: regex where
  "merge_target_pattern = seqs [Lit (u ''merge''), Plus Space, Grp 1 (Plus (InSet name_chars))]"

text \<open>\<open>match.group(1)\<close> of an optional match, with the default that the caller returns
  when there is no match.\<close>

definition group1_or :: "mstate option \<Rightarrow> str \<Rightarrow> str" where
  "group1_or m d = (case m of None \<Rightarrow> d
                    | Some st \<Rightarrow> (case group st 1 of None \<Rightarrow> d | Some t \<Rightarrow> t))"

definition extract_target :: "unicode \<Rightarrow> str \<Rightarrow> str \<Rightarrow> str" where
  "extract_target py query act =
     (let query_lower = lower py query in
      if act = u ''branch'' then group1_or (re_search py branch_target_pattern query_lower) (u ''new branch'')
      else if act = u ''commit'' then group1_or (re_search py message_target_pattern query) (u ''changes'')
      else if act = u ''merge'' then group1_or (re_search py merge_target_pattern query_lower) (u ''branch'')
      else u ''repository'')"

text \<open>The inner loop of \<open>_analyze_intent\<close>: the patterns of one category, in their order,
  left at the first one that is found.\<close>

fun any_pattern_found :: "unicode \<Rightarrow> regex list \<Rightarrow> str \<Rightarrow> bool" where
  "any_pattern_found py [] s = False"
| "any_pattern_found py (pat # patterns) s =
     (if re_found py pat s then True else any_pattern_found py patterns s)"

text \<open>The outer loop: the categories in their order, left at the first category one of
  whose patterns is found.\<close>

fun first_command :: "unicode \<Rightarrow> (str \<times> regex list) list \<Rightarrow> str \<Rightarrow> str option" where
  "first_command py [] s = None"
| "first_command py ((cmd, patterns) # rest) s =
     (if any_pattern_found py patterns s then Some cmd else first_command py rest s)"

definition analyze_intent :: "unicode \<Rightarrow> str \<Rightarrow> Intent" where
  "analyze_intent py query =
     (let query_lower = lower py query in
      case first_command py command_patterns query_lower of
        Some cmd \<Rightarrow>
          \<lparr>action = cmd, target = extract_target py query cmd, confidence = 8 / 10, raw_query = query\<rparr>
      | None \<Rightarrow>
          \<lparr>action = u ''help'', target = u ''general'', confidence = 5 / 10, raw_query = query\<rparr>)"


section \<open>The text-generation service\<close>

text \<open>
  \<open>gpt_service.py\<close>. The tokenizer and the language model are outside the program: one
  run of the body of the \<open>try\<close> block of \<open>generate_response\<close>, up to the slice that keeps
  the generated part of the decoded text, is a value of \<open>inference\<close>, either the text of
  that slice or the message of the exception raised on the way.
\<close>

datatype error = RuntimeError str | AnalyzerError str

datatype inference = Generated str | Raised str

record InferenceOptions =
  max_length :: int
  temperature :: real
  do_sample :: bool
  top_p :: real
  top_k :: int
  num_return_sequences :: int
  pad_token_id :: "int option"

text \<open>\<open>InferenceOptions()\<close>: the defaults of the data class.\<close>

definition default_options :: InferenceOptions where
  "default_options =
     \<lparr>max_length = 512, temperature = 7 / 10, do_sample = True, top_p = 9 / 10, top_k = 50,
      num_return_sequences = 1, pad_token_id = None\<rparr>"

text \<open>The state of the service that the program reads: whether the model is loaded
  (\<open>is_model_ready()\<close>), and what a run of the model gives for a prompt and its options.\<close>

record GPTModelService =
  is_model_ready :: bool
  run_model :: "str \<Rightarrow> InferenceOptions \<Rightarrow> inference"

definition nl :: str where
  "nl = [10]"

definition generate_response :: "unicode \<Rightarrow> GPTModelService \<Rightarrow> str \<Rightarrow> InferenceOptions option \<Rightarrow> error + str" where
  "generate_response py svc prompt options =
     (if \<not> is_model_ready svc then Inl (RuntimeError (u ''Model not initialized. Call initialize() first.''))
      else
        let options = (case options of None \<Rightarrow> default_options | Some opts \<Rightarrow> opts) in
        case run_model svc prompt options of
          Generated response_tail \<Rightarrow>
            (let generated_text = strip py response_tail in
             Inr (if generated_text \<noteq> [] then generated_text
                  else u ''I understand your request. Let me help you with that Git operation.''))
        | Raised e \<Rightarrow> Inr (u ''I encountered an error processing your request: '' @ e))"

text \<open>The dictionary that \<open>_build_git_context\<close> makes.\<close>

record GitContext =
  context_current_branch :: str
  context_staged_files :: "str list"
  context_unstaged_files :: "str list"
  context_untracked_files :: "str list"
  context_is_clean :: bool
  context_has_conflicts :: bool
  context_ahead_behind :: "(str \<times> int) list option"
  context_recent_commits :: "str list"

definition build_git_prompt :: "str \<Rightarrow> GitContext \<Rightarrow> str" where
  "build_git_prompt user_query git_context =
     (let context_parts =
            (if context_current_branch git_context \<noteq> []
             then [(u ''Current branch: '') @ context_current_branch git_context] else [])
          @ (if context_staged_files git_context \<noteq> []
             then [(u ''Staged files: '') @ str_nat (length (context_staged_files git_context))] else [])
          @ (if context_unstaged_files git_context \<noteq> []
             then [(u ''Modified files: '') @ str_nat (length (context_unstaged_files git_context))] else [])
          @ (if context_untracked_files git_context \<noteq> []
             then [(u ''Untracked files: '') @ str_nat (length (context_untracked_files git_context))] else []);
          context_str = (if context_parts \<noteq> [] then join (u '' | '') context_parts else u ''Clean repository'')
      in u ''Git Assistant: I'' @ [39] @ u ''m an AI that helps with Git operations.'' @ nl @ nl
         @ u ''Repository Status: '' @ context_str @ nl @ nl
         @ u ''User Question: '' @ user_query @ nl @ nl
         @ u ''Git Assistant Response:'')"

definition generate_git_response :: "unicode \<Rightarrow> GPTModelService \<Rightarrow> str \<Rightarrow> GitContext \<Rightarrow> error + str" where
  "generate_git_response py svc user_query git_context =
     (let prompt = build_git_prompt user_query git_context;
          options = default_options\<lparr>max_length := 400, temperature := 6 / 10, top_p := 8 / 10\<rparr>
      in generate_response py svc prompt (Some options))"

text \<open>\<open>generate_commit_message\<close>, in its three steps: the prompt, the call of the model,
  and the message taken from the response.\<close>

definition commit_message_prompt :: "str \<Rightarrow> str list \<Rightarrow> str" where
  "commit_message_prompt diff_summary file_changes =
     (let files_str = join (u '', '') (take 5 file_changes);
          files_str = (if length file_changes > 5
                       then files_str @ u '' and '' @ str_nat (length file_changes - 5) @ u '' more files''
                       else files_str)
      in u ''Generate a concise Git commit message for these changes:'' @ nl @ nl
         @ u ''Files changed: '' @ files_str @ nl
         @ u ''Summary: '' @ diff_summary @ nl @ nl
         @ u ''Commit message (use conventional commits format):'')"

definition commit_message_of_response :: "unicode \<Rightarrow> str \<Rightarrow> str" where
  "commit_message_of_response py response =
     (let commit_message = strip py (first_line (strip py response));
          commit_message = (if length commit_message > 72
                            then take 69 commit_message @ u ''...'' else commit_message)
      in if commit_message \<noteq> [] then commit_message else u ''Update files'')"

definition generate_commit_message :: "unicode \<Rightarrow> GPTModelService \<Rightarrow> str \<Rightarrow> str list \<Rightarrow> error + str" where
  "generate_commit_message py svc diff_summary file_changes =
     (let prompt = commit_message_prompt diff_summary file_changes;
          options = default_options\<lparr>max_length := 200, temperature := 5 / 10, top_p := 7 / 10\<rparr>
      in case generate_response py svc prompt (Some options) of
           Inl e \<Rightarrow> Inl e
         | Inr response \<Rightarrow> Inr (commit_message_of_response py response))"


section \<open>The repository inspector\<close>

text \<open>
  \<open>git_analyzer.py\<close> reads the working tree through the \<open>git\<close> library. What the program
  gets from it is the result of each of the two calls it makes during one request: a
  value, or the exception that the call raises.
\<close>

record GitStateAnalyzer =
  get_current_state :: "error + GitRepositoryState"
  analyze_diff :: "error + GitDiff"

record NLPService =
  gpt_service :: GPTModelService
  git_analyzer :: GitStateAnalyzer


section \<open>Command synthesis\<close>

definition build_git_context :: "GitRepositoryState \<Rightarrow> GitContext" where
  "build_git_context state =
     \<lparr>context_current_branch = current_branch state,
      context_staged_files = map path (staged_files state),
      context_unstaged_files = map path (unstaged_files state),
      context_untracked_files = untracked_files state,
      context_is_clean = is_clean state,
      context_has_conflicts = (conflicted_files state \<noteq> None),
      context_ahead_behind = ahead_behind state,
      context_recent_commits = map message (take 3 (recent_commits state))\<rparr>"

definition dquote :: str where
  "dquote = [34]"

definition generate_commit_commands :: "unicode \<Rightarrow> NLPService \<Rightarrow> GitRepositoryState \<Rightarrow> str \<Rightarrow> error + GitCommand list" where
  "generate_commit_commands py self context tgt =
     (let commands =
            (if staged_files context = [] \<and> (unstaged_files context \<noteq> [] \<or> untracked_files context \<noteq> [])
             then [\<lparr>command = u ''git'', args = [u ''add'', u ''.''],
                    description = u ''Stage all changes for commit'',
                    risk_level = SAFE, requires_confirmation = False,
                    explanation = Some (u ''First, let'' @ [39] @ u ''s stage your changes'')\<rparr>]
             else [])
      in if tgt \<noteq> (u ''changes'') then
           Inr (commands @
                [\<lparr>command = u ''git'', args = [u ''commit'', u ''-m'', dquote @ tgt @ dquote],
                  description = u ''Commit changes with message: '' @ tgt,
                  risk_level = SAFE, requires_confirmation = False, explanation = None\<rparr>])
         else if staged_files context \<noteq> [] \<or> unstaged_files context \<noteq> [] then
           (case analyze_diff (git_analyzer self) of
              Inl e \<Rightarrow> Inl e
            | Inr diff \<Rightarrow>
                (case generate_commit_message py (gpt_service self) (summary diff) (map path (files diff)) of
                   Inl e \<Rightarrow> Inl e
                 | Inr ai_message \<Rightarrow>
                     Inr (commands @
                          [\<lparr>command = u ''git'', args = [u ''commit'', u ''-m'', dquote @ ai_message @ dquote],
                            description = u ''Commit with AI-generated message: '' @ ai_message,
                            risk_level = SAFE, requires_confirmation = False, explanation = None\<rparr>])))
         else Inr commands)"

text \<open>\<open>context.ahead_behind and context.ahead_behind.get('ahead', 0) > 0\<close>: the dictionary
  is there, is not empty, and has a positive value under \<open>'ahead'\<close>. The result is that
  value, which \<open>context.ahead_behind['ahead']\<close> reads again in the branch taken then.\<close>

definition commits_to_push :: "GitRepositoryState \<Rightarrow> int option" where
  "commits_to_push context =
     (case ahead_behind context of
        None \<Rightarrow> None
      | Some [] \<Rightarrow> None
      | Some (kv # d) \<Rightarrow>
          (case map_of (kv # d) (u ''ahead'') of
             None \<Rightarrow> None
           | Some n \<Rightarrow> if n > 0 then Some n else None))"

definition generate_push_commands :: "GitRepositoryState \<Rightarrow> GitCommand list" where
  "generate_push_commands context =
     (case commits_to_push context of
        Some n \<Rightarrow>
          [\<lparr>command = u ''git'', args = [u ''push''],
            description = u ''Push commits to remote repository'',
            risk_level = SAFE, requires_confirmation = False,
            explanation = Some (u ''Push '' @ str_int n @ u '' commit(s) to remote'')\<rparr>]
      | None \<Rightarrow>
          [\<lparr>command = u ''git'', args = [u ''push'', u ''-u'', u ''origin'', current_branch context],
            description = u ''Push current branch to remote (first time)'',
            risk_level = MODERATE, requires_confirmation = True,
            explanation = Some (u ''This will create the branch on the remote repository'')\<rparr>])"

definition generate_pull_commands :: "GitRepositoryState \<Rightarrow> GitCommand list" where
  "generate_pull_commands context =
     (if \<not> is_clean context
      then [\<lparr>command = u ''git'', args = [u ''stash''],
             description = u ''Stash local changes before pulling'',
             risk_level = SAFE, requires_confirmation = True,
             explanation = Some (u ''Stash changes to avoid conflicts during pull'')\<rparr>]
      else [])
     @ [\<lparr>command = u ''git'', args = [u ''pull''],
          description = u ''Pull latest changes from remote'',
          risk_level = MODERATE, requires_confirmation = False,
          explanation = Some (u ''Fetch and merge changes from remote repository'')\<rparr>]"

definition generate_branch_commands :: "unicode \<Rightarrow> GitRepositoryState \<Rightarrow> str \<Rightarrow> str \<Rightarrow> GitCommand list" where
  "generate_branch_commands py context tgt query =
     (let query_lower = lower py query in
      if is_substring (u ''create'') query_lower \<or> is_substring (u ''new'') query_lower then
        (let branch_name = (if tgt \<noteq> (u ''new branch'') then tgt else u ''feature/new-feature'') in
         [\<lparr>command = u ''git'', args = [u ''checkout'', u ''-b'', branch_name],
           description = u ''Create and switch to new branch: '' @ branch_name,
           risk_level = SAFE, requires_confirmation = False, explanation = None\<rparr>])
      else if is_substring (u ''switch'') query_lower \<or> is_substring (u ''checkout'') query_lower then
        [\<lparr>command = u ''git'', args = [u ''checkout'', tgt],
          description = u ''Switch to branch: '' @ tgt,
          risk_level = MODERATE, requires_confirmation = (\<not> is_clean context),
          explanation = Some (u ''Switching branches with uncommitted changes may lose work'')\<rparr>]
      else
        [\<lparr>command = u ''git'', args = [u ''branch'', u ''-a''],
          description = u ''List all branches'',
          risk_level = SAFE, requires_confirmation = False, explanation = None\<rparr>])"

definition generate_merge_commands :: "GitRepositoryState \<Rightarrow> str \<Rightarrow> GitCommand list" where
  "generate_merge_commands context tgt =
     (if \<not> is_clean context
      then [\<lparr>command = u ''git'', args = [u ''status''],
             description = u ''Check repository status before merge'',
             risk_level = SAFE, requires_confirmation = False,
             explanation = Some (u ''Clean working directory recommended before merge'')\<rparr>]
      else [])
     @ [\<lparr>command = u ''git'', args = [u ''merge'', tgt],
          description = u ''Merge branch '' @ [39] @ tgt @ [39] @ u '' into current branch'',
          risk_level = MODERATE, requires_confirmation = True,
          explanation = Some (u ''This will combine changes from both branches'')\<rparr>]"

definition generate_status_commands :: "GitRepositoryState \<Rightarrow> GitCommand list" where
  "generate_status_commands context =
     [\<lparr>command = u ''git'', args = [u ''status''],
       description = u ''Show repository status'',
       risk_level = SAFE, requires_confirmation = False,
       explanation = Some (u ''Display current state of your repository'')\<rparr>]"

text \<open>The characters of the literals that are outside ASCII, as code points: the warning
  sign with its variation selector, and the light bulb.\<close>

definition warning_sign :: str where
  "warning_sign = [0x26A0, 0xFE0F]"

definition light_bulb :: str where
  "light_bulb = [0x1F4A1]"

definition generate_undo_commands :: "unicode \<Rightarrow> GitRepositoryState \<Rightarrow> str \<Rightarrow> GitCommand list" where
  "generate_undo_commands py context query =
     (let query_lower = lower py query in
      if is_substring (u ''commit'') query_lower then
        (if is_substring (u ''keep'') query_lower \<or> is_substring (u ''save'') query_lower then
           [\<lparr>command = u ''git'', args = [u ''reset'', u ''--soft'', u ''HEAD~1''],
             description = u ''Undo last commit but keep changes staged'',
             risk_level = MODERATE, requires_confirmation = True,
             explanation = Some (u ''This will undo the commit but preserve your changes'')\<rparr>]
         else
           [\<lparr>command = u ''git'', args = [u ''reset'', u ''--hard'', u ''HEAD~1''],
             description = u ''Undo last commit and discard changes'',
             risk_level = DESTRUCTIVE, requires_confirmation = True,
             explanation = Some (warning_sign @ u '' This will permanently delete your changes!'')\<rparr>])
      else
        [\<lparr>command = u ''git'', args = [u ''log'', u ''--oneline'', u ''-5''],
          description = u ''Show recent commits to choose what to undo'',
          risk_level = SAFE, requires_confirmation = False, explanation = None\<rparr>])"

definition generate_stash_commands :: "GitRepositoryState \<Rightarrow> GitCommand list" where
  "generate_stash_commands context =
     (if unstaged_files context \<noteq> [] \<or> untracked_files context \<noteq> [] then
        [\<lparr>command = u ''git'', args = [u ''stash'', u ''push'', u ''-m'', u ''Work in progress''],
          description = u ''Stash current changes'',
          risk_level = SAFE, requires_confirmation = False,
          explanation = Some (u ''Temporarily save your changes'')\<rparr>]
      else
        [\<lparr>command = u ''git'', args = [u ''stash'', u ''list''],
          description = u ''Show stashed changes'',
          risk_level = SAFE, requires_confirmation = False, explanation = None\<rparr>])"

definition generate_commands :: "unicode \<Rightarrow> NLPService \<Rightarrow> Intent \<Rightarrow> str \<Rightarrow> GitRepositoryState \<Rightarrow> str \<Rightarrow> error + GitCommand list" where
  "generate_commands py self intent query context ai_response =
     (let act = action intent; tgt = target intent in
      if act = u ''commit'' then generate_commit_commands py self context tgt
      else if act = u ''push'' then Inr (generate_push_commands context)
      else if act = u ''pull'' then Inr (generate_pull_commands context)
      else if act = u ''branch'' then Inr (generate_branch_commands py context tgt query)
      else if act = u ''merge'' then Inr (generate_merge_commands context tgt)
      else if act = u ''status'' then Inr (generate_status_commands context)
      else if act = u ''undo'' then Inr (generate_undo_commands py context query)
      else if act = u ''stash'' then Inr (generate_stash_commands context)
      else Inr [\<lparr>command = u ''git'', args = [u ''status''],
                  description = u ''Show repository status'',
                  risk_level = SAFE, requires_confirmation = False,
                  explanation = Some (u ''Let'' @ [39] @ u ''s start by checking your repository status'')\<rparr>])"


section \<open>Explanation, warnings and alternatives\<close>

definition i_will_help :: str where
  "i_will_help = u ''I'' @ [39] @ u ''ll help you ''"

text \<open>The dictionary \<open>explanations\<close> of \<open>_generate_explanation\<close>, in the order in which it
  is written.\<close>

definition explanations :: "GitRepositoryState \<Rightarrow> (str \<times> str) list" where
  "explanations context =
     [(u ''commit'', i_will_help @ u ''commit your changes. You have ''
                   @ str_nat (length (staged_files context)) @ u '' staged files and ''
                   @ str_nat (length (unstaged_files context)) @ u '' modified files.''),
      (u ''push'', i_will_help @ u ''push your changes to the remote repository.''),
      (u ''pull'', i_will_help @ u ''pull the latest changes from the remote repository.''),
      (u ''branch'', i_will_help @ u ''work with Git branches.''),
      (u ''merge'', i_will_help @ u ''merge branches safely.''),
      (u ''status'', (u ''I'') @ [39] @ u ''ll show you the current status of your repository.''),
      (u ''undo'', i_will_help @ u ''undo changes safely.''),
      (u ''stash'', i_will_help @ u ''stash your current work.'')]"

definition generate_explanation :: "Intent \<Rightarrow> str \<Rightarrow> GitRepositoryState \<Rightarrow> str \<Rightarrow> str" where
  "generate_explanation intent query context ai_response =
     (let base_explanation =
            (case map_of (explanations context) (action intent) of
               Some e \<Rightarrow> e
             | None \<Rightarrow> i_will_help @ u ''with that Git operation.'')
      in if ai_response \<noteq> [] \<and> length ai_response > 10
         then base_explanation @ u '' '' @ ai_response
         else base_explanation)"

definition destructive_warning :: str where
  "destructive_warning =
     warning_sign @ u '' This operation will permanently delete data. Make sure you have backups.''"

definition uncommitted_warning :: str where
  "uncommitted_warning =
     light_bulb @ u '' You have uncommitted changes. Consider committing them first.''"

definition conflicts_warning :: str where
  "conflicts_warning =
     warning_sign @ u '' You have unresolved merge conflicts. Resolve them before proceeding.''"

text \<open>\<open>if context.conflicted_files\<close>: the list is there and is not empty.\<close>

definition has_conflicted_files :: "GitRepositoryState \<Rightarrow> bool" where
  "has_conflicted_files context =
     (case conflicted_files context of None \<Rightarrow> False | Some fs \<Rightarrow> fs \<noteq> [])"

definition check_warnings :: "GitCommand list \<Rightarrow> GitRepositoryState \<Rightarrow> str list option" where
  "check_warnings commands context =
     (let destructive_commands = filter (\<lambda>cmd. risk_level cmd = DESTRUCTIVE) commands;
          ws = (if destructive_commands \<noteq> [] then [destructive_warning] else []);
          ws = (if \<not> is_clean context
                then (let push_commands = filter (\<lambda>cmd. (u ''push'') \<in> set (args cmd)) commands
                      in if push_commands \<noteq> [] then ws @ [uncommitted_warning] else ws)
                else ws);
          ws = (if has_conflicted_files context then ws @ [conflicts_warning] else ws)
      in if ws \<noteq> [] then Some ws else None)"

text \<open>The loop of \<open>_generate_alternatives\<close> over the commands.\<close>

fun safer_alternatives :: "GitCommand list \<Rightarrow> GitCommand list" where
  "safer_alternatives [] = []"
| "safer_alternatives (cmd # commands) =
     (if risk_level cmd = DESTRUCTIVE \<and> (u ''reset'') \<in> set (args cmd) \<and> (u ''--hard'') \<in> set (args cmd)
      then [\<lparr>command = u ''git'', args = [u ''reset'', u ''--soft'', u ''HEAD~1''],
             description = u ''Safer option: Undo commit but keep changes'',
             risk_level = MODERATE, requires_confirmation = True, explanation = None\<rparr>]
      else [])
     @ safer_alternatives commands"

definition generate_alternatives :: "GitCommand list \<Rightarrow> GitRepositoryState \<Rightarrow> GitCommand list option" where
  "generate_alternatives commands context =
     (let safer = safer_alternatives commands in if safer \<noteq> [] then Some safer else None)"


section \<open>Processing a query\<close>

definition process_user_query :: "unicode \<Rightarrow> NLPService \<Rightarrow> str \<Rightarrow> GitRepositoryState option \<Rightarrow> error + AssistantResponse" where
  "process_user_query py self query context =
     (case (case context of None \<Rightarrow> get_current_state (git_analyzer self) | Some c \<Rightarrow> Inr c) of
        Inl e \<Rightarrow> Inl e
      | Inr context \<Rightarrow>
          (let intent = analyze_intent py query;
               git_context = build_git_context context
           in case generate_git_response py (gpt_service self) query git_context of
                Inl e \<Rightarrow> Inl e
              | Inr ai_response \<Rightarrow>
                  (case generate_commands py self intent query context ai_response of
                     Inl e \<Rightarrow> Inl e
                   | Inr commands \<Rightarrow>
                       Inr \<lparr>response_interpretation =
                              (u ''I understand you want to '') @ action intent @ u '' '' @ target intent,
                            suggested_commands = commands,
                            response_explanation = generate_explanation intent query context ai_response,
                            warnings = check_warnings commands context,
                            alternatives = generate_alternatives commands context,
                            response_confidence = confidence intent\<rparr>)))"


section \<open>Sample inputs\<close>

text \<open>A clean working tree on \<open>main\<close> with no upstream, and the same tree with one modified
  file that is not staged.\<close>

definition clean_snapshot :: GitRepositoryState where
  "clean_snapshot =
     \<lparr>current_branch = u ''main'', staged_files = [], unstaged_files = [], untracked_files = [],
      remotes = [], recent_commits = [], conflicted_files = None, is_clean = True,
      ahead_behind = None\<rparr>"

definition dirty_snapshot :: GitRepositoryState where
  "dirty_snapshot =
     clean_snapshot\<lparr>unstaged_files := [\<lparr>path = u ''a.txt'', status = u ''modified''\<rparr>],
                    is_clean := False\<rparr>"

definition sample_diff :: GitDiff where
  "sample_diff =
     \<lparr>files = [\<lparr>path = u ''a.txt'', status = u ''modified''\<rparr>], total_insertions = 1,
      total_deletions = 0, summary = u ''1 file changed, 1 insertions(+), 0 deletions(-)'',
      is_merge = False\<rparr>"

text \<open>A service whose model is loaded and answers every prompt with the same line, and an
  inspector whose two calls succeed.\<close>

definition sample_service :: NLPService where
  "sample_service =
     \<lparr>gpt_service = \<lparr>is_model_ready = True,
                      run_model = (\<lambda>prompt options. Generated (u ''fix: update a.txt''))\<rparr>,
      git_analyzer = \<lparr>get_current_state = Inr dirty_snapshot, analyze_diff = Inr sample_diff\<rparr>\<rparr>"

text \<open>The same service before its model is loaded.\<close>

definition unloaded_service :: NLPService where
  "unloaded_service =
     sample_service\<lparr>gpt_service := (gpt_service sample_service)\<lparr>is_model_ready := False\<rparr>\<rparr>"

text \<open>An excerpt of the Unicode tables: the letters \<open>U+00C9\<close> and \<open>U+00E9\<close> and the
  Kelvin sign \<open>U+212A\<close> are word characters, the no-break space \<open>U+00A0\<close> and the
  ideographic space \<open>U+3000\<close> are white space; the lower case of \<open>U+00C9\<close> is
  \<open>U+00E9\<close> and that of the Kelvin sign is the letter \<open>k\<close>.\<close>

definition sample_unicode :: unicode where
  "sample_unicode =
     \<lparr>cp_class = (\<lambda>c. if c = 0xC9 \<or> c = 0xE9 \<or> c = 0x212A then WordCP
                      else if c = 0xA0 \<or> c = 0x3000 then SpaceCP else OtherCP),
      cp_lower = (\<lambda>before c after. if c = 0xC9 then [0xE9] else if c = 0x212A then [107] else [c])\<rparr>"

definition hard_reset_command :: GitCommand where
  "hard_reset_command =
     \<lparr>command = u ''git'', args = [u ''reset'', u ''--hard'', u ''HEAD~1''],
      description = u ''Undo last commit and discard changes'',
      risk_level = DESTRUCTIVE, requires_confirmation = True,
      explanation = Some (warning_sign @ u '' This will permanently delete your changes!'')\<rparr>"

definition soft_reset_alternative :: GitCommand where
  "soft_reset_alternative =
     \<lparr>command = u ''git'', args = [u ''reset'', u ''--soft'', u ''HEAD~1''],
      description = u ''Safer option: Undo commit but keep changes'',
      risk_level = MODERATE, requires_confirmation = True, explanation = None\<rparr>"

text \<open>What a reader of the suggested commands sees of their risk: the tier and the
  confirmation flag of each command, in order.\<close>

definition risk_profile :: "GitCommand list \<Rightarrow> (RiskLevel \<times> bool) list" where
  "risk_profile commands = map (\<lambda>cmd. (risk_level cmd, requires_confirmation cmd)) commands"


text \<open>No pattern of any category is found in the lowered query.\<close>

definition no_pattern_found :: "unicode \<Rightarrow> str \<Rightarrow> bool" where
  "no_pattern_found py query =
     (\<forall>cp \<in> set command_patterns. \<forall>pat \<in> set (snd cp). \<not> re_found py pat (lower py query))"

text \<open>The invariant of a snapshot that the inspector establishes: the tree is clean when
  the three file lists are empty.\<close>

definition snapshot_consistent :: "GitRepositoryState \<Rightarrow> bool" where
  "snapshot_consistent context =
     (is_clean context =
        (staged_files context = [] \<and> unstaged_files context = [] \<and> untracked_files context = []))"


section \<open>Literals\<close>

lemma u_eq_iff [simp]: "(u a = u b) = (a = b)"
  by (simp add: u_def inj_map_eq_map inj_on_def)


section \<open>The text-generation service: when it answers\<close>

lemma generate_response_ready:
  "is_model_ready svc \<Longrightarrow> \<exists>t. generate_response py svc prompt options = Inr t"
  by (simp add: generate_response_def Let_def split: inference.splits)

lemma generate_response_not_ready:
  "\<not> is_model_ready svc \<Longrightarrow>
   generate_response py svc prompt options =
     Inl (RuntimeError (u ''Model not initialized. Call initialize() first.''))"
  by (simp add: generate_response_def)

lemma generate_commit_message_ready:
  assumes "is_model_ready svc"
  shows "\<exists>m. generate_commit_message py svc diff_summary file_changes = Inr m"
proof -
  obtain t where "generate_response py svc (commit_message_prompt diff_summary file_changes)
      (Some (default_options\<lparr>max_length := 200, temperature := 5 / 10, top_p := 7 / 10\<rparr>)) = Inr t"
    using generate_response_ready [OF assms] by blast
  then show ?thesis
    by (simp add: generate_commit_message_def Let_def)
qed

lemma generate_commit_message_not_ready:
  "\<not> is_model_ready svc \<Longrightarrow>
   generate_commit_message py svc diff_summary file_changes =
     Inl (RuntimeError (u ''Model not initialized. Call initialize() first.''))"
  by (simp add: generate_commit_message_def Let_def generate_response_not_ready)


section \<open>Risk tiers of the synthesized commands\<close>

lemma commit_commands_safe:
  "generate_commit_commands py self context tgt = Inr commands \<Longrightarrow> cmd \<in> set commands \<Longrightarrow>
   risk_level cmd = SAFE"
  by (auto simp add: generate_commit_commands_def Let_def split: if_splits sum.splits)

lemma safer_alternatives_moderate:
  "cmd \<in> set (safer_alternatives commands) \<Longrightarrow>
   risk_level cmd = MODERATE \<and> requires_confirmation cmd"
  by (induction commands) (auto split: if_splits)

text \<open>
  Claim C1. Every command that the synthesizer \<open>_generate_commands\<close> returns, for any
  intent, query, snapshot and response of the backend, and every command that the auditor
  \<open>_generate_alternatives\<close> returns, requires confirmation if its risk level is
  destructive.
\<close>

theorem destructive_requires_confirmation:
  "(generate_commands py self intent query context ai_response = Inr commands \<longrightarrow>
      (\<forall>cmd \<in> set commands. risk_level cmd = DESTRUCTIVE \<longrightarrow> requires_confirmation cmd))
   \<and> (generate_alternatives commands' context' = Some safer \<longrightarrow>
      (\<forall>cmd \<in> set safer. risk_level cmd = DESTRUCTIVE \<longrightarrow> requires_confirmation cmd))"
proof (intro conjI impI ballI)
  fix cmd
  assume gen: "generate_commands py self intent query context ai_response = Inr commands"
    and mem: "cmd \<in> set commands" and d: "risk_level cmd = DESTRUCTIVE"
  show "requires_confirmation cmd"
  proof (cases "action intent = u ''commit''")
    case True
    with gen have "generate_commit_commands py self context (target intent) = Inr commands"
      by (simp add: generate_commands_def Let_def)
    from commit_commands_safe [OF this mem] d show ?thesis by simp
  next
    case False
    with gen mem d show ?thesis
      by (auto simp add: generate_commands_def Let_def generate_push_commands_def
          generate_pull_commands_def generate_branch_commands_def generate_merge_commands_def
          generate_status_commands_def generate_undo_commands_def generate_stash_commands_def
          split: if_splits option.splits)
  qed
next
  fix cmd
  assume "generate_alternatives commands' context' = Some safer" and "cmd \<in> set safer"
  then have "cmd \<in> set (safer_alternatives commands')"
    by (auto simp add: generate_alternatives_def Let_def split: if_splits)
  then show "requires_confirmation cmd"
    using safer_alternatives_moderate by blast
qed

text \<open>The undo rule on a query that names commits gives the one destructive command there
  is, and it requires confirmation; the auditor answers it with the soft reset.\<close>

theorem destructive_requires_confirmation_witness:
  "generate_commands sample_unicode sample_service
      \<lparr>action = u ''undo'', target = u ''repository'', confidence = 8 / 10,
       raw_query = u ''undo 2 commits''\<rparr>
      (u ''undo 2 commits'') clean_snapshot [] = Inr [hard_reset_command]
   \<and> risk_level hard_reset_command = DESTRUCTIVE
   \<and> requires_confirmation hard_reset_command
   \<and> generate_alternatives [hard_reset_command] clean_snapshot = Some [soft_reset_alternative]
   \<and> requires_confirmation soft_reset_alternative"
proof -
  have sub: "is_substring (u ''commit'') (lower sample_unicode (u ''undo 2 commits''))"
    "\<not> is_substring (u ''keep'') (lower sample_unicode (u ''undo 2 commits''))"
    "\<not> is_substring (u ''save'') (lower sample_unicode (u ''undo 2 commits''))"
    by code_simp+
  have gen: "generate_commands sample_unicode sample_service
      \<lparr>action = u ''undo'', target = u ''repository'', confidence = 8 / 10,
       raw_query = u ''undo 2 commits''\<rparr>
      (u ''undo 2 commits'') clean_snapshot [] = Inr [hard_reset_command]"
    using sub by (simp add: generate_commands_def generate_undo_commands_def hard_reset_command_def)
  have alt: "generate_alternatives [hard_reset_command] clean_snapshot = Some [soft_reset_alternative]"
    by (simp add: generate_alternatives_def hard_reset_command_def soft_reset_alternative_def)
  have d: "risk_level hard_reset_command = DESTRUCTIVE"
    by (simp add: hard_reset_command_def)
  from destructive_requires_confirmation [of sample_unicode sample_service _ "u ''undo 2 commits''"
      clean_snapshot "[]" "[hard_reset_command]" "[hard_reset_command]" clean_snapshot
      "[soft_reset_alternative]"]
    gen alt d
  show ?thesis by (simp add: soft_reset_alternative_def)
qed


section \<open>The push rule\<close>

text \<open>
  Claim C6. The push rule returns exactly one command. If the snapshot has an
  \<open>ahead_behind\<close> whose \<open>ahead\<close> is positive, it is the plain \<open>git push\<close>, safe and
  without confirmation; otherwise (no \<open>ahead_behind\<close>, or an \<open>ahead\<close> that is not
  positive) it is \<open>git push -u origin\<close> with the name of the current branch, moderate and
  with confirmation.
\<close>

theorem push_rule:
  "\<exists>cmd. generate_push_commands context = [cmd] \<and> command cmd = u ''git'' \<and>
     (if \<exists>d n. ahead_behind context = Some d \<and> map_of d (u ''ahead'') = Some n \<and> 0 < n
      then args cmd = [u ''push''] \<and> risk_level cmd = SAFE \<and> \<not> requires_confirmation cmd
      else args cmd = [u ''push'', u ''-u'', u ''origin'', current_branch context]
           \<and> risk_level cmd = MODERATE \<and> requires_confirmation cmd)"
proof (cases "commits_to_push context")
  case None
  then have "\<not> (\<exists>d n. ahead_behind context = Some d \<and> map_of d (u ''ahead'') = Some n \<and> 0 < n)"
    by (auto simp add: commits_to_push_def split: option.splits list.splits if_splits)
  with None show ?thesis by (simp add: generate_push_commands_def)
next
  case (Some n)
  then have "\<exists>d n. ahead_behind context = Some d \<and> map_of d (u ''ahead'') = Some n \<and> 0 < n"
    by (auto simp add: commits_to_push_def split: option.splits list.splits if_splits)
  with Some show ?thesis by (simp add: generate_push_commands_def)
qed


section \<open>The warnings of the auditor\<close>

text \<open>
  Claim C8. On a snapshot whose \<open>conflicted_files\<close> is a non-empty list, the warnings of
  the auditor are a non-empty list that holds the warning about unresolved merge
  conflicts, whatever the commands are.
\<close>

theorem conflicts_always_warned:
  "conflicted_files context = Some (f # fs) \<Longrightarrow>
   (\<exists>ws. check_warnings commands context = Some ws \<and> ws \<noteq> [] \<and> conflicts_warning \<in> set ws)"
  by (simp add: check_warnings_def has_conflicted_files_def Let_def)

theorem conflicts_always_warned_witness:
  "\<exists>ws. check_warnings [] (clean_snapshot\<lparr>conflicted_files := Some [u ''x.txt'']\<rparr>) = Some ws
        \<and> ws \<noteq> [] \<and> conflicts_warning \<in> set ws"
  using conflicts_always_warned
    [of "clean_snapshot\<lparr>conflicted_files := Some [u ''x.txt'']\<rparr>" "u ''x.txt''" "[]" "[]"]
  by simp

text \<open>
  Claim C9, as stated: the warnings of the auditor are always a list, empty when no rule
  triggers. On no command and a clean snapshot without conflicts the function returns
  \<open>None\<close>, not the empty list.
\<close>

theorem warnings_present_counterexample:
  "check_warnings [] clean_snapshot = None"
  by (simp add: check_warnings_def has_conflicted_files_def clean_snapshot_def)

text \<open>
  Claim C9, amended. The warnings of the auditor are absent (\<open>None\<close>) exactly when none of
  the three rules triggers: no destructive command, no command with \<open>push\<close> among its
  arguments on a tree that is not clean, no conflicted file. They are never the empty
  list.
\<close>

theorem warnings_absent_or_nonempty:
  "(check_warnings commands context = None) =
     (\<not> list_ex (\<lambda>cmd. risk_level cmd = DESTRUCTIVE) commands
      \<and> \<not> (\<not> is_clean context \<and> list_ex (\<lambda>cmd. u ''push'' \<in> set (args cmd)) commands)
      \<and> \<not> has_conflicted_files context)
   \<and> check_warnings commands context \<noteq> Some []"
  by (auto simp add: check_warnings_def Let_def filter_empty_conv list_ex_iff)


section \<open>The commit rule\<close>

text \<open>
  Claim C5, as stated: on every snapshot with no staged file and at least one unstaged
  file the commit rule, applied to a commit intent whose target is the placeholder
  \<open>changes\<close>, returns a command list that begins with \<open>git add .\<close> followed by a commit
  command. The rule asks the text-generation service for the message: with a service
  whose model is not loaded the call raises \<open>RuntimeError\<close> and the rule returns no list.
\<close>

theorem commit_rule_counterexample:
  "staged_files dirty_snapshot = [] \<and> unstaged_files dirty_snapshot \<noteq> []
   \<and> generate_commands sample_unicode unloaded_service
         \<lparr>action = u ''commit'', target = u ''changes'', confidence = 8 / 10,
          raw_query = u ''commit my work''\<rparr>
         (u ''commit my work'') dirty_snapshot [] =
       Inl (RuntimeError (u ''Model not initialized. Call initialize() first.''))"
  by (simp add: generate_commands_def generate_commit_commands_def
      generate_commit_message_not_ready dirty_snapshot_def clean_snapshot_def
      unloaded_service_def sample_service_def)

text \<open>
  Claim C5, amended. On a snapshot with no staged file and at least one unstaged file, the
  commit rule applied to a commit intent whose target is the placeholder \<open>changes\<close>
  returns \<open>git add .\<close> followed by a commit command, both safe and without confirmation,
  when the diff analysis of the inspector returns and the model of the service is loaded.
  When the diff analysis raises, the rule raises the same exception; when it returns and
  the model is not loaded, the rule raises \<open>RuntimeError\<close>.
\<close>

theorem commit_rule_stages_first:
  assumes "staged_files context = []" and "unstaged_files context \<noteq> []"
    and "action intent = u ''commit''" and "target intent = u ''changes''"
  shows
   "(is_model_ready (gpt_service self) \<and> analyze_diff (git_analyzer self) = Inr diff \<longrightarrow>
      (\<exists>ai_message.
         generate_commands py self intent query context ai_response =
           Inr [\<lparr>command = u ''git'', args = [u ''add'', u ''.''],
                  description = u ''Stage all changes for commit'',
                  risk_level = SAFE, requires_confirmation = False,
                  explanation = Some (u ''First, let'' @ [39] @ u ''s stage your changes'')\<rparr>,
                \<lparr>command = u ''git'', args = [u ''commit'', u ''-m'', dquote @ ai_message @ dquote],
                  description = u ''Commit with AI-generated message: '' @ ai_message,
                  risk_level = SAFE, requires_confirmation = False, explanation = None\<rparr>]))
    \<and> (analyze_diff (git_analyzer self) = Inl e \<longrightarrow>
          generate_commands py self intent query context ai_response = Inl e)
    \<and> (\<not> is_model_ready (gpt_service self) \<and> analyze_diff (git_analyzer self) = Inr diff \<longrightarrow>
          generate_commands py self intent query context ai_response =
            Inl (RuntimeError (u ''Model not initialized. Call initialize() first.'')))"
proof (intro conjI impI)
  assume h: "is_model_ready (gpt_service self) \<and> analyze_diff (git_analyzer self) = Inr diff"
  then obtain ai_message where
    "generate_commit_message py (gpt_service self) (summary diff) (map path (files diff)) = Inr ai_message"
    using generate_commit_message_ready [of "gpt_service self"] by blast
  with assms h show "\<exists>ai_message.
         generate_commands py self intent query context ai_response =
           Inr [\<lparr>command = u ''git'', args = [u ''add'', u ''.''],
                  description = u ''Stage all changes for commit'',
                  risk_level = SAFE, requires_confirmation = False,
                  explanation = Some (u ''First, let'' @ [39] @ u ''s stage your changes'')\<rparr>,
                \<lparr>command = u ''git'', args = [u ''commit'', u ''-m'', dquote @ ai_message @ dquote],
                  description = u ''Commit with AI-generated message: '' @ ai_message,
                  risk_level = SAFE, requires_confirmation = False, explanation = None\<rparr>]"
    by (simp add: generate_commands_def generate_commit_commands_def Let_def)
next
  assume "analyze_diff (git_analyzer self) = Inl e"
  with assms show "generate_commands py self intent query context ai_response = Inl e"
    by (simp add: generate_commands_def generate_commit_commands_def Let_def)
next
  assume "\<not> is_model_ready (gpt_service self) \<and> analyze_diff (git_analyzer self) = Inr diff"
  with assms show "generate_commands py self intent query context ai_response =
            Inl (RuntimeError (u ''Model not initialized. Call initialize() first.''))"
    by (simp add: generate_commands_def generate_commit_commands_def Let_def
        generate_commit_message_not_ready)
qed

theorem commit_rule_stages_first_witness:
  "staged_files dirty_snapshot = [] \<and> unstaged_files dirty_snapshot \<noteq> []
   \<and> is_model_ready (gpt_service sample_service)
   \<and> analyze_diff (git_analyzer sample_service) = Inr sample_diff
   \<and> (\<exists>ai_message.
         generate_commands sample_unicode sample_service
           \<lparr>action = u ''commit'', target = u ''changes'', confidence = 8 / 10,
            raw_query = u ''commit my work''\<rparr>
           (u ''commit my work'') dirty_snapshot [] =
         Inr [\<lparr>command = u ''git'', args = [u ''add'', u ''.''],
                description = u ''Stage all changes for commit'',
                risk_level = SAFE, requires_confirmation = False,
                explanation = Some (u ''First, let'' @ [39] @ u ''s stage your changes'')\<rparr>,
              \<lparr>command = u ''git'', args = [u ''commit'', u ''-m'', dquote @ ai_message @ dquote],
                description = u ''Commit with AI-generated message: '' @ ai_message,
                risk_level = SAFE, requires_confirmation = False, explanation = None\<rparr>])"
proof -
  have h: "staged_files dirty_snapshot = []" "unstaged_files dirty_snapshot \<noteq> []"
    by (simp_all add: dirty_snapshot_def clean_snapshot_def)
  have e: "is_model_ready (gpt_service sample_service)"
    "analyze_diff (git_analyzer sample_service) = Inr sample_diff"
    by (simp_all add: sample_service_def)
  from h e commit_rule_stages_first [OF h, of
      "\<lparr>action = u ''commit'', target = u ''changes'', confidence = 8 / 10,
        raw_query = u ''commit my work''\<rparr>"
      sample_service sample_diff sample_unicode "u ''commit my work''" "[]"]
  show ?thesis by simp
qed


section \<open>Classification: the first category that matches\<close>

lemma any_pattern_found_iff:
  "any_pattern_found py patterns s = (\<exists>pat \<in> set patterns. re_found py pat s)"
  by (induction patterns) auto

lemma first_command_None_iff:
  "(first_command py cps s = None) = (\<forall>cp \<in> set cps. \<not> any_pattern_found py (snd cp) s)"
  by (induction py cps s rule: first_command.induct) auto

lemma first_command_first_match:
  "i < length cps \<Longrightarrow> any_pattern_found py (snd (cps ! i)) s \<Longrightarrow>
   (\<forall>j<i. \<not> any_pattern_found py (snd (cps ! j)) s) \<Longrightarrow>
   first_command py cps s = Some (fst (cps ! i))"
proof (induction py cps s arbitrary: i rule: first_command.induct)
  case (1 py s)
  then show ?case by simp
next
  case (2 py cmd patterns rest s)
  show ?case
  proof (cases i)
    case 0
    with "2.prems" show ?thesis by simp
  next
    case (Suc k)
    with "2.prems" have head: "\<not> any_pattern_found py patterns s" by fastforce
    from Suc "2.prems" have "first_command py rest s = Some (fst (rest ! k))"
      by (intro "2.IH" [OF head]) auto
    with head Suc show ?thesis by simp
  qed
qed

text \<open>
  Claim C3. The categories are declared in the order commit, push, pull, branch, merge,
  status, undo, stash, and classification returns the first of them, in that order, one
  of whose patterns is found in the lowered query: if a pattern of category \<open>i\<close> is found
  and no pattern of a category before \<open>i\<close> is, the action is the name of category \<open>i\<close>,
  whatever later categories match as well. This holds for every query and whatever the
  Unicode tables say beyond ASCII.
\<close>

theorem classification_first_match_wins:
  "map fst command_patterns =
     [u ''commit'', u ''push'', u ''pull'', u ''branch'', u ''merge'', u ''status'', u ''undo'',
      u ''stash'']
   \<and> (i < length command_patterns
        \<and> (\<exists>pat \<in> set (snd (command_patterns ! i)). re_found py pat (lower py query))
        \<and> (\<forall>j<i. \<forall>pat \<in> set (snd (command_patterns ! j)). \<not> re_found py pat (lower py query))
      \<longrightarrow> action (analyze_intent py query) = fst (command_patterns ! i))"
proof (intro conjI impI)
  show "map fst command_patterns =
     [u ''commit'', u ''push'', u ''pull'', u ''branch'', u ''merge'', u ''status'', u ''undo'',
      u ''stash'']"
    by (simp add: command_patterns_def)
next
  assume h: "i < length command_patterns
        \<and> (\<exists>pat \<in> set (snd (command_patterns ! i)). re_found py pat (lower py query))
        \<and> (\<forall>j<i. \<forall>pat \<in> set (snd (command_patterns ! j)). \<not> re_found py pat (lower py query))"
  then have "first_command py command_patterns (lower py query) = Some (fst (command_patterns ! i))"
    by (intro first_command_first_match) (auto simp add: any_pattern_found_iff)
  then show "action (analyze_intent py query) = fst (command_patterns ! i)"
    by (simp add: analyze_intent_def Let_def)
qed

text \<open>\<open>Push my branch\<close> matches \<open>\bpush\b\<close> of the second category and
  \<open>\bbranch\b\<close> of the fourth, and no pattern of the first: it is a push.\<close>

theorem classification_first_match_wins_witness:
  "re_found sample_unicode (snd (command_patterns ! 1) ! 1) (lower sample_unicode (u ''Push my branch''))
   \<and> re_found sample_unicode (snd (command_patterns ! 3) ! 2) (lower sample_unicode (u ''Push my branch''))
   \<and> fst (command_patterns ! 3) = u ''branch''
   \<and> action (analyze_intent sample_unicode (u ''Push my branch'')) = u ''push''"
proof -
  have a: "(1::nat) < length command_patterns" by (simp add: command_patterns_def)
  have b: "\<exists>pat \<in> set (snd (command_patterns ! 1)).
             re_found sample_unicode pat (lower sample_unicode (u ''Push my branch''))"
    by code_simp
  have c: "\<forall>j<(1::nat). \<forall>pat \<in> set (snd (command_patterns ! j)).
             \<not> re_found sample_unicode pat (lower sample_unicode (u ''Push my branch''))"
  proof -
    have "\<forall>pat \<in> set (snd (command_patterns ! 0)).
            \<not> re_found sample_unicode pat (lower sample_unicode (u ''Push my branch''))"
      by code_simp
    then show ?thesis by simp
  qed
  have d: "re_found sample_unicode (snd (command_patterns ! 1) ! 1) (lower sample_unicode (u ''Push my branch''))"
    "re_found sample_unicode (snd (command_patterns ! 3) ! 2) (lower sample_unicode (u ''Push my branch''))"
    "fst (command_patterns ! 3) = u ''branch''" "fst (command_patterns ! 1) = u ''push''"
    by code_simp+
  from classification_first_match_wins [of 1 sample_unicode "u ''Push my branch''"] a b c d
  show ?thesis by simp
qed


section \<open>Classification: no match\<close>

lemma space_not_word: "is_space py c \<Longrightarrow> \<not> is_word py c"
  by (auto simp add: is_space_def is_word_def ascii_space_def ascii_word_def split: if_splits)

lemma lower_cp_space: "is_space py c \<Longrightarrow> lower_cp py before c after = [c]"
  by (auto simp add: is_space_def lower_cp_def ascii_space_def ascii_lower_def split: if_splits)

lemma lower_from_space: "\<forall>c \<in> set s. is_space py c \<Longrightarrow> lower_from py before s = s"
  by (induction s arbitrary: before) (simp_all add: lower_cp_space)

lemma search_from_boundary_no_word:
  "\<forall>c \<in> set s. \<not> is_word py c \<Longrightarrow> \<not> word_before py p \<Longrightarrow>
   search_from py (Seq WordB r) p s = None"
  by (induction s arbitrary: p) (simp_all add: word_before_def word_after_def)

lemma patterns_start_at_boundary:
  "cp \<in> set command_patterns \<Longrightarrow> pat \<in> set (snd cp) \<Longrightarrow> \<exists>r. pat = Seq WordB r"
  by (auto simp add: command_patterns_def)

lemma no_word_no_pattern:
  assumes "\<forall>c \<in> set s. \<not> is_word py c" and "cp \<in> set command_patterns" and "pat \<in> set (snd cp)"
  shows "\<not> re_found py pat s"
proof -
  obtain r where "pat = Seq WordB r"
    using patterns_start_at_boundary [OF assms(2,3)] by blast
  with assms(1) show ?thesis
    by (simp add: re_found_def re_search_def search_from_boundary_no_word word_before_def)
qed

lemma analyze_intent_no_match:
  "no_pattern_found py query \<Longrightarrow>
   analyze_intent py query =
     \<lparr>action = u ''help'', target = u ''general'', confidence = 5 / 10, raw_query = query\<rparr>"
proof -
  assume "no_pattern_found py query"
  then have "first_command py command_patterns (lower py query) = None"
    by (simp add: first_command_None_iff any_pattern_found_iff no_pattern_found_def)
  then show ?thesis by (simp add: analyze_intent_def Let_def)
qed

lemma analyze_intent_match:
  "\<not> no_pattern_found py query \<Longrightarrow> confidence (analyze_intent py query) = 8 / 10"
proof -
  assume "\<not> no_pattern_found py query"
  then have "first_command py command_patterns (lower py query) \<noteq> None"
    by (simp add: first_command_None_iff any_pattern_found_iff no_pattern_found_def)
  then show ?thesis by (auto simp add: analyze_intent_def Let_def)
qed

lemma whitespace_no_pattern_found:
  assumes "\<forall>c \<in> set query. is_space py c"
  shows "no_pattern_found py query"
proof -
  from assms have "lower py query = query"
    by (simp add: lower_def lower_from_space)
  moreover from assms have "\<forall>c \<in> set query. \<not> is_word py c"
    using space_not_word by blast
  ultimately show ?thesis
    unfolding no_pattern_found_def by (auto dest: no_word_no_pattern)
qed

text \<open>
  Claim C4. A query in which no pattern of any category is found is classified as
  \<open>help\<close> with target \<open>general\<close> and the fallback confidence; the empty query and every
  query of white space only (ASCII or not) are such queries; and the fallback confidence
  is strictly below the confidence of every query in which a pattern is found, which is
  one constant.
\<close>

theorem unmatched_query_is_help:
  "(no_pattern_found py query \<longrightarrow>
      analyze_intent py query =
        \<lparr>action = u ''help'', target = u ''general'', confidence = 5 / 10, raw_query = query\<rparr>)
   \<and> ((\<forall>c \<in> set query. is_space py c) \<longrightarrow> no_pattern_found py query)
   \<and> (no_pattern_found py query \<and> \<not> no_pattern_found py query' \<longrightarrow>
        confidence (analyze_intent py query') = 8 / 10
        \<and> confidence (analyze_intent py query) < confidence (analyze_intent py query'))"
proof (intro conjI impI)
  assume "no_pattern_found py query"
  then show "analyze_intent py query =
        \<lparr>action = u ''help'', target = u ''general'', confidence = 5 / 10, raw_query = query\<rparr>"
    by (rule analyze_intent_no_match)
next
  assume "\<forall>c \<in> set query. is_space py c"
  then show "no_pattern_found py query" by (rule whitespace_no_pattern_found)
next
  assume "no_pattern_found py query \<and> \<not> no_pattern_found py query'"
  then show "confidence (analyze_intent py query') = 8 / 10"
    by (simp add: analyze_intent_match)
next
  assume h: "no_pattern_found py query \<and> \<not> no_pattern_found py query'"
  then have "confidence (analyze_intent py query) = 5 / 10"
    by (simp add: analyze_intent_no_match)
  moreover from h have "confidence (analyze_intent py query') = 8 / 10"
    by (simp add: analyze_intent_match)
  ultimately show "confidence (analyze_intent py query) < confidence (analyze_intent py query')"
    by simp
qed

text \<open>A space, a no-break space and an ideographic space against \<open>stash\<close>.\<close>

theorem unmatched_query_is_help_witness:
  "no_pattern_found sample_unicode [32, 0xA0, 0x3000] \<and> \<not> no_pattern_found sample_unicode (u ''stash'')
   \<and> analyze_intent sample_unicode [32, 0xA0, 0x3000] =
       \<lparr>action = u ''help'', target = u ''general'', confidence = 5 / 10,
        raw_query = [32, 0xA0, 0x3000]\<rparr>
   \<and> confidence (analyze_intent sample_unicode (u ''stash'')) = 8 / 10
   \<and> confidence (analyze_intent sample_unicode [32, 0xA0, 0x3000])
       < confidence (analyze_intent sample_unicode (u ''stash''))"
proof -
  have sp: "\<forall>c \<in> set [32, 0xA0, 0x3000]. is_space sample_unicode c"
    by (simp add: is_space_def ascii_space_def sample_unicode_def)
  have m: "\<not> no_pattern_found sample_unicode (u ''stash'')"
  proof -
    have "re_found sample_unicode (snd (command_patterns ! 7) ! 1) (lower sample_unicode (u ''stash''))"
      by code_simp
    moreover have "command_patterns ! 7 \<in> set command_patterns"
      "snd (command_patterns ! 7) ! 1 \<in> set (snd (command_patterns ! 7))"
      by (simp_all add: command_patterns_def)
    ultimately show ?thesis unfolding no_pattern_found_def by blast
  qed
  note inst = unmatched_query_is_help [of sample_unicode "[32, 0xA0, 0x3000]" "u ''stash''"]
  from inst sp have np: "no_pattern_found sample_unicode [32, 0xA0, 0x3000]" by blast
  from inst np m show ?thesis by blast
qed


section \<open>Processing a query: the part of the backend\<close>

lemma generate_git_response_ready:
  "is_model_ready svc \<Longrightarrow> \<exists>t. generate_git_response py svc user_query git_context = Inr t"
  by (simp add: generate_git_response_def Let_def generate_response_ready)

lemma generate_git_response_not_ready:
  "\<not> is_model_ready svc \<Longrightarrow>
   generate_git_response py svc user_query git_context =
     Inl (RuntimeError (u ''Model not initialized. Call initialize() first.''))"
  by (simp add: generate_git_response_def Let_def generate_response_not_ready)

lemma process_user_query_not_ready:
  "\<not> is_model_ready (gpt_service self) \<Longrightarrow>
   process_user_query py self query (Some context) =
     Inl (RuntimeError (u ''Model not initialized. Call initialize() first.''))"
  by (simp add: process_user_query_def Let_def generate_git_response_not_ready)

lemma process_user_query_ready:
  assumes "is_model_ready (gpt_service self)"
    and "\<And>ai_response. generate_commands py self (analyze_intent py query) query context ai_response
           = Inr commands"
  shows "\<exists>response. process_user_query py self query (Some context) = Inr response
           \<and> suggested_commands response = commands
           \<and> warnings response = check_warnings commands context
           \<and> alternatives response = generate_alternatives commands context"
proof -
  obtain ai_response where
    "generate_git_response py (gpt_service self) query (build_git_context context) = Inr ai_response"
    using generate_git_response_ready [OF assms(1)] by blast
  with assms(2) show ?thesis
    by (simp add: process_user_query_def Let_def)
qed











section \<open>The stash rule and the warning about uncommitted changes\<close>

lemma push_argument_warned:
  "\<not> is_clean context \<Longrightarrow> cmd \<in> set commands \<Longrightarrow> u ''push'' \<in> set (args cmd) \<Longrightarrow>
   \<exists>ws. check_warnings commands context = Some ws \<and> uncommitted_warning \<in> set ws"
  by (auto simp add: check_warnings_def Let_def filter_empty_conv)

lemma stash_is_classified_stash:
  "action (analyze_intent py (u ''stash'')) = u ''stash''"
  by code_simp

text \<open>
  Claim C10, as stated: on every snapshot with an unstaged or untracked file, processing a
  stash-classified query produces the warning about uncommitted changes. With a service
  whose model is not loaded, processing raises \<open>RuntimeError\<close> before any command is
  synthesized, and produces no warning.
\<close>

theorem stash_warning_counterexample:
  "action (analyze_intent sample_unicode (u ''stash'')) = u ''stash''
   \<and> unstaged_files dirty_snapshot \<noteq> []
   \<and> \<not> is_clean dirty_snapshot
   \<and> process_user_query sample_unicode unloaded_service (u ''stash'') (Some dirty_snapshot) =
       Inl (RuntimeError (u ''Model not initialized. Call initialize() first.''))"
proof -
  have "\<not> is_model_ready (gpt_service unloaded_service)"
    by (simp add: unloaded_service_def)
  then have "process_user_query sample_unicode unloaded_service (u ''stash'') (Some dirty_snapshot) =
       Inl (RuntimeError (u ''Model not initialized. Call initialize() first.''))"
    by (rule process_user_query_not_ready)
  then show ?thesis
    by (simp add: stash_is_classified_stash dirty_snapshot_def clean_snapshot_def)
qed

text \<open>
  Claim C10, amended. On a snapshot that has an unstaged or untracked file and keeps the
  invariant of \<open>is_clean\<close> (so that it is not clean), processing a stash-classified query
  with a service whose model is loaded returns a response whose only command is
  \<open>git stash push -m "Work in progress"\<close> and whose warnings hold the advice about
  uncommitted changes: the auditor finds \<open>push\<close> among the arguments of the stash
  command. With a service whose model is not loaded, processing raises \<open>RuntimeError\<close>.
\<close>

theorem stash_triggers_uncommitted_warning:
  assumes "action (analyze_intent py query) = u ''stash''"
    and "unstaged_files context \<noteq> [] \<or> untracked_files context \<noteq> []"
    and "snapshot_consistent context"
  shows
   "(is_model_ready (gpt_service self) \<longrightarrow>
      (\<exists>response ws.
         process_user_query py self query (Some context) = Inr response
         \<and> map args (suggested_commands response) =
             [[u ''stash'', u ''push'', u ''-m'', u ''Work in progress'']]
         \<and> warnings response = Some ws
         \<and> uncommitted_warning \<in> set ws))
    \<and> (\<not> is_model_ready (gpt_service self) \<longrightarrow>
          process_user_query py self query (Some context) =
            Inl (RuntimeError (u ''Model not initialized. Call initialize() first.'')))"
proof (intro conjI impI)
  assume ready: "is_model_ready (gpt_service self)"
  from assms(2,3) have dirty: "\<not> is_clean context"
    by (auto simp add: snapshot_consistent_def)
  from assms(1) have "\<And>ai_response.
      generate_commands py self (analyze_intent py query) query context ai_response =
        Inr (generate_stash_commands context)"
    by (simp add: generate_commands_def)
  from process_user_query_ready [OF ready this]
  obtain response where r: "process_user_query py self query (Some context) = Inr response"
    "suggested_commands response = generate_stash_commands context"
    "warnings response = check_warnings (generate_stash_commands context) context"
    by blast
  from assms(2) have a: "map args (generate_stash_commands context) =
      [[u ''stash'', u ''push'', u ''-m'', u ''Work in progress'']]"
    by (auto simp add: generate_stash_commands_def)
  from assms(2) have "\<exists>cmd \<in> set (generate_stash_commands context). u ''push'' \<in> set (args cmd)"
    by (auto simp add: generate_stash_commands_def)
  with dirty obtain ws where
    "check_warnings (generate_stash_commands context) context = Some ws"
    "uncommitted_warning \<in> set ws"
    using push_argument_warned by blast
  with r a show "\<exists>response ws.
         process_user_query py self query (Some context) = Inr response
         \<and> map args (suggested_commands response) =
             [[u ''stash'', u ''push'', u ''-m'', u ''Work in progress'']]
         \<and> warnings response = Some ws
         \<and> uncommitted_warning \<in> set ws"
    by auto
next
  assume "\<not> is_model_ready (gpt_service self)"
  then show "process_user_query py self query (Some context) =
            Inl (RuntimeError (u ''Model not initialized. Call initialize() first.''))"
    by (rule process_user_query_not_ready)
qed

theorem stash_triggers_uncommitted_warning_witness:
  "action (analyze_intent sample_unicode (u ''stash'')) = u ''stash''
   \<and> unstaged_files dirty_snapshot \<noteq> []
   \<and> snapshot_consistent dirty_snapshot
   \<and> is_model_ready (gpt_service sample_service)
   \<and> (\<exists>response ws.
         process_user_query sample_unicode sample_service (u ''stash'') (Some dirty_snapshot) = Inr response
         \<and> map args (suggested_commands response) =
             [[u ''stash'', u ''push'', u ''-m'', u ''Work in progress'']]
         \<and> warnings response = Some ws
         \<and> uncommitted_warning \<in> set ws)"
proof -
  have a: "action (analyze_intent sample_unicode (u ''stash'')) = u ''stash''"
    by (rule stash_is_classified_stash)
  have b: "unstaged_files dirty_snapshot \<noteq> [] \<or> untracked_files dirty_snapshot \<noteq> []"
    by (simp add: dirty_snapshot_def)
  have c: "snapshot_consistent dirty_snapshot"
    by (simp add: snapshot_consistent_def dirty_snapshot_def clean_snapshot_def)
  have d: "is_model_ready (gpt_service sample_service)"
    by (simp add: sample_service_def)
  from stash_triggers_uncommitted_warning [OF a b c, of sample_service] a c d
  show ?thesis by (simp add: dirty_snapshot_def)
qed


section \<open>The undo rule and the query \<open>undo my last commit\<close>\<close>

lemma undo_my_last_commit_intent:
  "analyze_intent py (u ''undo my last commit'') =
     \<lparr>action = u ''commit'', target = u ''changes'', confidence = 8 / 10,
      raw_query = u ''undo my last commit''\<rparr>"
proof -
  have "first_command py command_patterns (lower py (u ''undo my last commit'')) = Some (u ''commit'')"
    by code_simp
  moreover have "extract_target py (u ''undo my last commit'') (u ''commit'') = u ''changes''"
    by code_simp
  ultimately show ?thesis by (simp add: analyze_intent_def Let_def)
qed

text \<open>
  Claim C7 says that processing \<open>undo my last commit\<close> gives one command, the hard reset
  of the last commit, destructive and with confirmation, and one moderate soft reset among
  the alternatives. The query holds the word \<open>commit\<close>, the category \<open>commit\<close> is tested
  before \<open>undo\<close>, and its pattern \<open>\bcommit\b\<close> is found: the query is classified as a
  commit whatever the Unicode tables, the undo rule is never reached, and on a tree with
  one unstaged file the response holds \<open>git add .\<close> and a commit, both safe, and no
  alternative.
\<close>

theorem undo_last_commit_is_classified_commit:
  "action (analyze_intent py (u ''undo my last commit'')) = u ''commit''
   \<and> map_sum id (\<lambda>response. (map args (suggested_commands response),
                              risk_profile (suggested_commands response),
                              alternatives response))
       (process_user_query sample_unicode sample_service (u ''undo my last commit'')
          (Some dirty_snapshot)) =
     Inr ([[u ''add'', u ''.''], [u ''commit'', u ''-m'', dquote @ u ''fix: update a.txt'' @ dquote]],
          [(SAFE, False), (SAFE, False)],
          None)"
proof -
  have msg: "generate_commit_message sample_unicode (gpt_service sample_service)
      (summary sample_diff) (map path (files sample_diff)) = Inr (u ''fix: update a.txt'')"
  proof -
    have "commit_message_of_response sample_unicode (strip sample_unicode (u ''fix: update a.txt''))
        = u ''fix: update a.txt''"
      by code_simp
    moreover have "strip sample_unicode (u ''fix: update a.txt'') \<noteq> []"
      by code_simp
    ultimately show ?thesis
      by (simp add: generate_commit_message_def generate_response_def sample_service_def Let_def)
  qed
  have ready: "is_model_ready (gpt_service sample_service)"
    by (simp add: sample_service_def)
  have "\<And>ai_response.
      generate_commands sample_unicode sample_service
        (analyze_intent sample_unicode (u ''undo my last commit''))
        (u ''undo my last commit'') dirty_snapshot ai_response =
      Inr [\<lparr>command = u ''git'', args = [u ''add'', u ''.''],
             description = u ''Stage all changes for commit'',
             risk_level = SAFE, requires_confirmation = False,
             explanation = Some (u ''First, let'' @ [39] @ u ''s stage your changes'')\<rparr>,
           \<lparr>command = u ''git'', args = [u ''commit'', u ''-m'', dquote @ u ''fix: update a.txt'' @ dquote],
             description = u ''Commit with AI-generated message: '' @ u ''fix: update a.txt'',
             risk_level = SAFE, requires_confirmation = False, explanation = None\<rparr>]"
    using msg
    by (simp add: undo_my_last_commit_intent generate_commands_def generate_commit_commands_def
        dirty_snapshot_def clean_snapshot_def sample_service_def Let_def)
  from process_user_query_ready [OF ready this]
  show ?thesis
    by (auto simp add: undo_my_last_commit_intent risk_profile_def generate_alternatives_def)
qed


section \<open>Classification beyond ASCII\<close>

text \<open>Two queries with a character outside ASCII, under the excerpt of the Unicode tables:
  in \<open>commit\<close> followed by \<open>U+00E9\<close> the word does not end after \<open>commit\<close>, and the
  query is a push; the Kelvin sign is lowered to \<open>k\<close>, which makes the word \<open>work\<close>, and
  the query is a commit.\<close>

lemma classification_beyond_ascii:
  "action (analyze_intent sample_unicode (u ''commit'' @ [0xE9] @ u '' push'')) = u ''push''"
  "action (analyze_intent sample_unicode (u ''save my wor'' @ [0x212A] @ u '' then push'')) = u ''commit''"
  "action (analyze_intent sample_unicode ([0xE9] @ u ''commit'')) = u ''help''"
  by code_simp+

end
